theory Spec2Isabelle
  imports Main
begin

section \<open>The recipient table\<close>

text \<open>
  The bot keeps one PostgreSQL table,
  \<^verbatim>\<open>recipients(nickname TEXT PRIMARY KEY, chat_id BIGINT NOT NULL UNIQUE,
  username TEXT, role TEXT NOT NULL DEFAULT 'user')\<close>
  (\<^verbatim>\<open>init_db\<close> in bot.py). A row is the dataclass \<^verbatim>\<open>Recipient\<close>; the table is
  the list of its rows. A statement that reads returns the rows in list order, and an
  \<^verbatim>\<open>INSERT\<close> appends. A Python \<^verbatim>\<open>str\<close> is a \<open>string\<close>, one \<open>char\<close> for each
  character (code points below 256), and a Python \<^verbatim>\<open>int\<close> is an \<open>int\<close>.

  The model covers what the database answers; losing the connection to the database
  is outside the model. A request to the Telegram API is answered, or the HTTP client
  raises.
\<close>

record recipient =
  nickname :: string
  chat_id :: int
  username :: "string option"
  role :: string

type_synonym table = "recipient list"

text \<open>\<^verbatim>\<open>_row_to_recipient\<close>: a fetched row, as a tuple, becomes a \<^verbatim>\<open>Recipient\<close>.\<close>

fun row_to_recipient :: "string \<times> int \<times> string option \<times> string \<Rightarrow> recipient" where
  "row_to_recipient (n, c, u, r) = \<lparr>nickname = n, chat_id = c, username = u, role = r\<rparr>"

text \<open>
  The two constraints of the schema: \<^verbatim>\<open>nickname\<close> is the primary key and
  \<^verbatim>\<open>chat_id\<close> is declared \<^verbatim>\<open>UNIQUE\<close>. The database holds only tables that
  satisfy them.
\<close>

definition schema_ok :: "table \<Rightarrow> bool" where
  "schema_ok t = (distinct (map nickname t) \<and> distinct (map chat_id t))"

subsection \<open>The SQL statements the code executes\<close>

text \<open>\<^verbatim>\<open>SELECT ... FROM recipients WHERE chat_id = %s\<close>\<close>

definition select_by_chat :: "table \<Rightarrow> int \<Rightarrow> recipient list" where
  "select_by_chat t c = filter (\<lambda>r. chat_id r = c) t"

text \<open>\<^verbatim>\<open>SELECT ... FROM recipients WHERE nickname = %s\<close>\<close>

definition select_by_nickname :: "table \<Rightarrow> string \<Rightarrow> recipient list" where
  "select_by_nickname t n = filter (\<lambda>r. nickname r = n) t"

text \<open>\<^verbatim>\<open>cur.fetchone()\<close>: the first row of the result, or \<^verbatim>\<open>None\<close>.\<close>

definition fetchone :: "'a list \<Rightarrow> 'a option" where
  "fetchone rows = (case rows of [] \<Rightarrow> None | r # _ \<Rightarrow> Some r)"

text \<open>
  \<^verbatim>\<open>UPDATE recipients SET username = %s WHERE nickname = %s\<close> and
  \<^verbatim>\<open>UPDATE recipients SET role = %s WHERE nickname = %s\<close>.
  \<^verbatim>\<open>cur.rowcount\<close> after an update or a delete is the number of rows the
  \<^verbatim>\<open>WHERE\<close> clause selected.
\<close>

definition update_username :: "table \<Rightarrow> string \<Rightarrow> string option \<Rightarrow> table" where
  "update_username t n u = map (\<lambda>r. if nickname r = n then r\<lparr>username := u\<rparr> else r) t"

definition update_role :: "table \<Rightarrow> string \<Rightarrow> string \<Rightarrow> table" where
  "update_role t n ro = map (\<lambda>r. if nickname r = n then r\<lparr>role := ro\<rparr> else r) t"

text \<open>\<^verbatim>\<open>DELETE FROM recipients WHERE nickname = %s\<close> and \<^verbatim>\<open>... WHERE chat_id = %s\<close>\<close>

definition delete_where_nickname :: "table \<Rightarrow> string \<Rightarrow> table" where
  "delete_where_nickname t n = filter (\<lambda>r. nickname r \<noteq> n) t"

definition delete_where_chat :: "table \<Rightarrow> int \<Rightarrow> table" where
  "delete_where_chat t c = filter (\<lambda>r. chat_id r \<noteq> c) t"

subsection \<open>Errors and messages\<close>

text \<open>
  The texts the bot sends are Russian sentences built by f-strings. A message is
  modelled by a constructor for its template, carrying the values the f-string
  interpolates. The comments give the place of each text in bot.py.
\<close>

datatype message =
    ChatHasNickname string          \<comment> \<open>save_recipient: this chat already has nickname ...\<close>
  | NicknameInUse string            \<comment> \<open>save_recipient: nickname ... is used by another user\<close>
  | EmptyNickname                   \<comment> \<open>the receive handlers: nickname must not be empty\<close>
  | AdminsOnly                      \<comment> \<open>the admin commands: only for administrators\<close>
  | BadRoleChoice                   \<comment> \<open>setrole_choose_role: wrong role choice, try /setrole again\<close>
  | RoleMustBeAdminOrUser           \<comment> \<open>setrole_choose_role: role must be 'admin' or 'user'\<close>
  | RoleChoiceLost                  \<comment> \<open>setrole_receive_nickname: start again with /setrole\<close>
  | UserNotFound string             \<comment> \<open>setrole_receive_nickname: user with nickname ... not found\<close>
  | RoleNotChanged string           \<comment> \<open>setrole_receive_nickname: could not change the role of ...\<close>
  | NoSuchUser string               \<comment> \<open>unsubscribe_user_receive_nickname: ... not found\<close>

text \<open>
  The exceptions: \<^verbatim>\<open>BotUserError\<close> with its message, the \<^verbatim>\<open>ValueError\<close> of
  \<^verbatim>\<open>set_role\<close>, the \<^verbatim>\<open>IndexError\<close> of a list index out of range, and the
  database's refusal of an \<^verbatim>\<open>INSERT\<close> that breaks the
  primary key or the \<^verbatim>\<open>UNIQUE\<close> constraint.
\<close>

datatype error =
    BotUserError message
  | ValueError
  | IndexError
  | UniqueViolation

text \<open>
  \<^verbatim>\<open>INSERT INTO recipients (nickname, chat_id, username, role) VALUES (...)\<close>:
  refused when the nickname or the chat id is already in the table.
\<close>

definition sql_insert :: "table \<Rightarrow> recipient \<Rightarrow> error + table" where
  "sql_insert t r =
     (if nickname r \<in> set (map nickname t) \<or> chat_id r \<in> set (map chat_id t)
      then Inl UniqueViolation
      else Inr (t @ [r]))"

section \<open>The registry operations of bot.py\<close>

text \<open>
  Every operation takes the table and returns the table it leaves behind together
  with its result: \<open>Inl\<close> the exception it raises, \<open>Inr\<close> the value it returns.
  An operation that raises has committed nothing, so it returns the table it was given.

  \<open>save_recipient\<close> reads the row of the chat and the row of the nickname and then
  goes through its four cases in the order of the source. A fetched row is \<open>Some\<close> row
  and Python's \<^verbatim>\<open>None\<close> is \<open>None\<close>; a test such as \<^verbatim>\<open>row_chat and row_chat[0] != nickname\<close>
  is false for \<open>None\<close>. The message of the second case carries \<^verbatim>\<open>row_chat[0]\<close>, and
  \<open>row_chat\<close> is a row there.
\<close>

definition save_recipient ::
  "table \<Rightarrow> string \<Rightarrow> int \<Rightarrow> string option \<Rightarrow> table \<times> (error + unit)" where
  "save_recipient t n c u =
     (let row_chat = fetchone (select_by_chat t c);
          row_nick = fetchone (select_by_nickname t n)
      in
        if (case (row_chat, row_nick) of
              (Some rc, Some rn) \<Rightarrow> nickname rc = nickname rn \<and> nickname rn = n
            | _ \<Rightarrow> False)
        then (update_username t n u, Inr ())
        else if (case row_chat of Some rc \<Rightarrow> nickname rc \<noteq> n | None \<Rightarrow> False)
        then (t, Inl (BotUserError (ChatHasNickname
                (case row_chat of Some rc \<Rightarrow> nickname rc | None \<Rightarrow> n))))
        else if (case row_nick of Some rn \<Rightarrow> chat_id rn \<noteq> c | None \<Rightarrow> False)
        then (t, Inl (BotUserError (NicknameInUse n)))
        else (case sql_insert t \<lparr>nickname = n, chat_id = c, username = u, role = ''user''\<rparr> of
                Inl e \<Rightarrow> (t, Inl e)
              | Inr t' \<Rightarrow> (t', Inr ())))"

definition get_recipients_by_chat :: "table \<Rightarrow> int \<Rightarrow> recipient list" where
  "get_recipients_by_chat t c = select_by_chat t c"

definition delete_by_nickname :: "table \<Rightarrow> string \<Rightarrow> table \<times> nat" where
  "delete_by_nickname t n = (delete_where_nickname t n, length (select_by_nickname t n))"

definition unsubscribe_chat :: "table \<Rightarrow> int \<Rightarrow> table \<times> nat" where
  "unsubscribe_chat t c = (delete_where_chat t c, length (select_by_chat t c))"

definition set_role :: "table \<Rightarrow> string \<Rightarrow> string \<Rightarrow> table \<times> (error + nat)" where
  "set_role t n ro =
     (if ro \<notin> set [''user'', ''admin''] then (t, Inl ValueError)
      else (update_role t n ro, Inr (length (select_by_nickname t n))))"

definition is_admin_chat :: "table \<Rightarrow> int \<Rightarrow> bool" where
  "is_admin_chat t c = list_ex (\<lambda>r. role r = ''admin'') (get_recipients_by_chat t c)"

definition get_recipient_by_nickname :: "table \<Rightarrow> string \<Rightarrow> recipient option" where
  "get_recipient_by_nickname t n = fetchone (select_by_nickname t n)"

definition get_all_recipients :: "table \<Rightarrow> recipient list" where
  "get_all_recipients t = t"


subsection \<open>Sequences of registry operations\<close>

text \<open>
  The four operations that write the table, as commands, and the tables a sequence
  of them leaves behind, one after each command. A command that raises leaves the
  table as it was.
\<close>

datatype registry_op =
    Register string int "string option"
  | DeleteByNickname string
  | DeleteByChat int
  | SetRole string string

fun apply_op :: "table \<Rightarrow> registry_op \<Rightarrow> table" where
  "apply_op t (Register n c u) = fst (save_recipient t n c u)"
| "apply_op t (DeleteByNickname n) = fst (delete_by_nickname t n)"
| "apply_op t (DeleteByChat c) = fst (unsubscribe_chat t c)"
| "apply_op t (SetRole n ro) = fst (set_role t n ro)"

fun tables_after :: "table \<Rightarrow> registry_op list \<Rightarrow> table list" where
  "tables_after t [] = []"
| "tables_after t (x # xs) = apply_op t x # tables_after (apply_op t x) xs"

text \<open>The role column holds one of the two role names.\<close>

definition roles_ok :: "table \<Rightarrow> bool" where
  "roles_ok t = list_all (\<lambda>r. role r = ''user'' \<or> role r = ''admin'') t"

definition table_ok :: "table \<Rightarrow> bool" where
  "table_ok t = (schema_ok t \<and> roles_ok t)"

section \<open>The conversation handlers of bot.py\<close>

text \<open>The states of the conversations, and \<^verbatim>\<open>ConversationHandler.END\<close>.\<close>

definition SUBSCRIBE_NICKNAME :: int where "SUBSCRIBE_NICKNAME = 1"
definition SETROLE_CHOOSE_ROLE :: int where "SETROLE_CHOOSE_ROLE = 2"
definition SETROLE_WAIT_NICKNAME :: int where "SETROLE_WAIT_NICKNAME = 3"
definition UNSUB_USER_WAIT_NICKNAME :: int where "UNSUB_USER_WAIT_NICKNAME = 4"
definition END :: int where "END = - 1"

text \<open>
  The texts a handler sends, one constructor for each template as for the error
  messages. \<open>ChooseRole\<close> carries the inline keyboard: the label and the
  \<^verbatim>\<open>callback_data\<close> of each button.
\<close>

datatype reply =
    Subscribed string                     \<comment> \<open>subscribe_receive: nickname ... is bound to this chat\<close>
  | ChooseRole "(string \<times> string) list"    \<comment> \<open>setrole_start: choose the role\<close>
  | RoleChosen string                     \<comment> \<open>setrole_choose_role: role ... chosen, now send the nickname\<close>
  | RoleAlready string string             \<comment> \<open>setrole_receive_nickname: ... already has role ...\<close>
  | RoleChanged string string string      \<comment> \<open>setrole_receive_nickname: role of ... changed: old, new\<close>
  | Removed string                        \<comment> \<open>unsubscribe_user_receive_nickname: ... removed\<close>
  | Cancelled                             \<comment> \<open>cancel_all\<close>

text \<open>
  A handler returns the next state of its conversation or raises: \<open>Inr\<close> the state,
  \<open>Inl\<close> the exception. \<^verbatim>\<open>context.user_data\<close> is a dictionary; the handlers use
  the one key \<^verbatim>\<open>"target_role"\<close>. What a handler has written to it stays written
  when the handler raises afterwards.
\<close>

type_synonym user_data = "string \<rightharpoonup> string"
type_synonym outcome = "error + int"

text \<open>
  \<^verbatim>\<open>str.strip()\<close> removes leading and trailing whitespace; \<open>isspace\<close> lists the
  characters below 256 that Python counts as whitespace.
\<close>

definition isspace :: "char \<Rightarrow> bool" where
  "isspace ch = (of_char ch \<in> set [9, 10, 11, 12, 13, 28, 29, 30, 31, 32, 133, 160 :: nat])"

definition strip :: "string \<Rightarrow> string" where
  "strip s = rev (dropWhile isspace (rev (dropWhile isspace s)))"

text \<open>\<^verbatim>\<open>data.startswith(p)\<close>\<close>

definition startswith :: "string \<Rightarrow> string \<Rightarrow> bool" where
  "startswith s p = (take (length p) s = p)"

text \<open>
  \<^verbatim>\<open>data.split(":", 1)\<close>: the text before the first colon and the text after it, or the
  whole text alone when it has no colon.
\<close>

definition split_colon :: "string \<Rightarrow> string list" where
  "split_colon s =
     (let a = takeWhile (\<lambda>ch. ch \<noteq> CHR '':'') s;
          b = dropWhile (\<lambda>ch. ch \<noteq> CHR '':'') s
      in if b = [] then [a] else [a, tl b])"

definition cancel_all :: "reply list \<times> outcome" where
  "cancel_all = ([Cancelled], Inr END)"

definition subscribe_receive ::
  "table \<Rightarrow> int \<Rightarrow> string option \<Rightarrow> string \<Rightarrow> table \<times> reply list \<times> outcome" where
  "subscribe_receive t c u txt =
     (let n = strip txt in
      if n = [] then (t, [], Inl (BotUserError EmptyNickname))
      else (case save_recipient t n c u of
              (t', Inl e) \<Rightarrow> (t', [], Inl e)
            | (t', Inr _) \<Rightarrow> (t', [Subscribed n], Inr END)))"

definition setrole_start :: "table \<Rightarrow> int \<Rightarrow> reply list \<times> outcome" where
  "setrole_start t c =
     (if \<not> is_admin_chat t c then ([], Inl (BotUserError AdminsOnly))
      else ([ChooseRole [(''admin'', ''role:admin''), (''user'', ''role:user'')]],
            Inr SETROLE_CHOOSE_ROLE))"

text \<open>\<^verbatim>\<open>query.data\<close> is a string or \<^verbatim>\<open>None\<close>; \<^verbatim>\<open>query.data or ""\<close> reads \<^verbatim>\<open>None\<close> as the empty string.\<close>

definition setrole_choose_role ::
  "user_data \<Rightarrow> string option \<Rightarrow> user_data \<times> reply list \<times> outcome" where
  "setrole_choose_role ud qdata =
     (let data = (case qdata of None \<Rightarrow> [] | Some d \<Rightarrow> d) in
      if \<not> startswith data ''role:'' then (ud, [], Inl (BotUserError BadRoleChoice))
      else (case split_colon data of
              _ # ro # _ \<Rightarrow>
                if ro \<notin> set [''admin'', ''user'']
                then (ud, [], Inl (BotUserError RoleMustBeAdminOrUser))
                else (ud(''target_role'' \<mapsto> ro), [RoleChosen ro], Inr SETROLE_WAIT_NICKNAME)
            | _ \<Rightarrow> (ud, [], Inl IndexError)))"

definition setrole_receive_nickname ::
  "table \<Rightarrow> user_data \<Rightarrow> string \<Rightarrow> table \<times> user_data \<times> reply list \<times> outcome" where
  "setrole_receive_nickname t ud txt =
     (let n = strip txt;
          cleared = ud(''target_role'' := None)
      in
        if n = [] then (t, ud, [], Inl (BotUserError EmptyNickname))
        else if (case ud ''target_role'' of None \<Rightarrow> True | Some ro \<Rightarrow> ro \<notin> set [''admin'', ''user''])
        then (t, cleared, [], Inl (BotUserError RoleChoiceLost))
        else (case (ud ''target_role'', get_recipient_by_nickname t n) of
                (Some ro, None) \<Rightarrow> (t, cleared, [], Inl (BotUserError (UserNotFound n)))
              | (Some ro, Some recipient) \<Rightarrow>
                  (let old_role = role recipient in
                   if old_role = ro then (t, cleared, [RoleAlready n ro], Inr END)
                   else (case set_role t n ro of
                           (t', Inl e) \<Rightarrow> (t', ud, [], Inl e)
                         | (t', Inr updated) \<Rightarrow>
                             if updated = 0
                             then (t', cleared, [], Inl (BotUserError (RoleNotChanged n)))
                             else (t', cleared, [RoleChanged n old_role ro], Inr END)))
              | (None, _) \<Rightarrow> (t, cleared, [], Inl (BotUserError RoleChoiceLost))))"

definition unsubscribe_user_receive_nickname ::
  "table \<Rightarrow> string \<Rightarrow> table \<times> reply list \<times> outcome" where
  "unsubscribe_user_receive_nickname t txt =
     (let n = strip txt in
      if n = [] then (t, [], Inl (BotUserError EmptyNickname))
      else (case delete_by_nickname t n of
              (t', deleted) \<Rightarrow>
                if deleted = 0 then (t', [], Inl (BotUserError (NoSuchUser n)))
                else (t', [Removed n], Inr END)))"

subsection \<open>The role conversation as \<^verbatim>\<open>main\<close> wires it\<close>

text \<open>
  \<^verbatim>\<open>setrole_conv\<close> is a \<^verbatim>\<open>ConversationHandler\<close> of python-telegram-bot with the entry
  point \<^verbatim>\<open>/setrole\<close>, one handler for each of the two states and the fallback
  \<^verbatim>\<open>/cancel\<close>. The library keeps the state of the conversation of a chat. With no
  conversation going on it offers an update to the entry points, otherwise to the
  handlers of the current state and then to the fallbacks. The state the called
  handler returns becomes the current one, \<^verbatim>\<open>END\<close> closes the conversation, and
  a handler that raises leaves the state as it was. An update that no handler
  accepts is not handled here.
\<close>

datatype update =
    Command string                 \<comment> \<open>a command, without its slash\<close>
  | Text string                    \<comment> \<open>a text message that is no command\<close>
  | CallbackQuery "string option"  \<comment> \<open>a pressed inline button with its \<^verbatim>\<open>callback_data\<close>\<close>

record session =
  conv_state :: "int option"
  user_data :: user_data

text \<open>
  The \<^verbatim>\<open>CallbackQueryHandler\<close> of the role-choice state has
  \<^verbatim>\<open>pattern=r"^role:(admin|user)$"\<close>, applied with \<^verbatim>\<open>re.match\<close>. In Python's
  regular expressions \<^verbatim>\<open>$\<close> matches at the end of the string and also just before a
  newline that ends the string.
\<close>

definition role_pattern :: "string \<Rightarrow> bool" where
  "role_pattern d =
     (d \<in> set [''role:admin'', ''role:user''] \<or>
      d \<in> set [''role:admin'' @ [CHR 0x0A], ''role:user'' @ [CHR 0x0A]])"

definition update_state :: "int option \<Rightarrow> outcome \<Rightarrow> int option" where
  "update_state st res =
     (case res of Inl e \<Rightarrow> st | Inr new \<Rightarrow> if new = END then None else Some new)"

definition setrole_conv ::
  "table \<Rightarrow> int \<Rightarrow> session \<Rightarrow> update \<Rightarrow> table \<times> session \<times> (reply list \<times> outcome) option" where
  "setrole_conv t c s upd =
     (case conv_state s of
        None \<Rightarrow>
          (if upd = Command ''setrole''
           then (case setrole_start t c of
                   (rs, res) \<Rightarrow> (t, s\<lparr>conv_state := update_state None res\<rparr>, Some (rs, res)))
           else (t, s, None))
      | Some st \<Rightarrow>
          (case upd of
             CallbackQuery d \<Rightarrow>
               if st = SETROLE_CHOOSE_ROLE \<and> (case d of None \<Rightarrow> False | Some x \<Rightarrow> role_pattern x)
               then (case setrole_choose_role (user_data s) d of
                       (ud', rs, res) \<Rightarrow>
                         (t, \<lparr>conv_state = update_state (Some st) res, user_data = ud'\<rparr>,
                          Some (rs, res)))
               else (t, s, None)
           | Text txt \<Rightarrow>
               if st = SETROLE_WAIT_NICKNAME
               then (case setrole_receive_nickname t (user_data s) txt of
                       (t', ud', rs, res) \<Rightarrow>
                         (t', \<lparr>conv_state = update_state (Some st) res, user_data = ud'\<rparr>,
                          Some (rs, res)))
               else (t, s, None)
           | Command cmd \<Rightarrow>
               if cmd = ''cancel''
               then (case cancel_all of
                       (rs, res) \<Rightarrow> (t, s\<lparr>conv_state := update_state (Some st) res\<rparr>, Some (rs, res)))
               else (t, s, None)))"

section \<open>The notification service, notify_service.py\<close>

text \<open>
  \<^verbatim>\<open>NotifyRequest\<close> is the body of \<^verbatim>\<open>POST /notify\<close>. The handler returns the JSON
  object of the answer, status 200, or raises an \<^verbatim>\<open>HTTPException\<close> with the status of
  the answer; the detail of an exception is modelled like the bot's messages. An
  exception that the handler does not catch leaves it as it is, \<open>Uncaught\<close>: the
  handler has chosen no status then, and the server answers for it with 500.
\<close>

datatype NotifyRequest =
  NotifyRequest (payload_secret: string) (payload_nickname: string) (payload_text: string)

datatype detail =
    InvalidSecret               \<comment> \<open>"Invalid secret"\<close>
  | NicknameNotFound            \<comment> \<open>"nickname not found"\<close>
  | TelegramError nat string    \<comment> \<open>"Telegram error: status, text"\<close>

text \<open>
  The exceptions of the service: the \<^verbatim>\<open>KeyError\<close> of \<^verbatim>\<open>get_chat_id\<close>; the
  \<^verbatim>\<open>RuntimeError\<close> of \<^verbatim>\<open>send_telegram_message\<close> with the status and the text of
  Telegram's answer; and the \<^verbatim>\<open>RequestException\<close> that \<^verbatim>\<open>requests.post\<close> raises when
  no answer arrives (the connection fails, or the ten seconds of \<^verbatim>\<open>timeout=10\<close> pass).
  A \<^verbatim>\<open>RequestException\<close> is an \<^verbatim>\<open>OSError\<close>, not a \<^verbatim>\<open>RuntimeError\<close>.
\<close>

datatype key_error = KeyError

datatype send_exception = RuntimeError nat string | RequestException

datatype http_response =
    Success "(string \<times> string) list"
  | HTTPException nat detail
  | Uncaught send_exception

text \<open>
  What \<^verbatim>\<open>requests.post(TG_API_URL, json={chat_id, text}, timeout=10)\<close> does: it
  returns the answer of the Telegram API, with \<^verbatim>\<open>resp.ok\<close>, \<^verbatim>\<open>resp.status_code\<close> and
  \<^verbatim>\<open>resp.text\<close>, or it raises. The API is a parameter \<open>post\<close> of the model, from the
  chat id and the text to what the call does.
\<close>

datatype tg_response = TgResponse (resp_ok: bool) (resp_status_code: nat) (resp_text: string)

datatype post_result = Returns tg_response | Raises

type_synonym telegram = "int \<Rightarrow> string \<Rightarrow> post_result"

text \<open>The calls the request handler makes to the registry and to Telegram, in order.\<close>

datatype call = GetChatId string | SendTelegramMessage int string

definition get_chat_id :: "table \<Rightarrow> string \<Rightarrow> key_error + int" where
  "get_chat_id t n =
     (case fetchone (select_by_nickname t n) of
        None \<Rightarrow> Inl KeyError
      | Some row \<Rightarrow> Inr (chat_id row))"

definition send_telegram_message :: "telegram \<Rightarrow> int \<Rightarrow> string \<Rightarrow> send_exception + unit" where
  "send_telegram_message post c txt =
     (case post c txt of
        Raises \<Rightarrow> Inl RequestException
      | Returns resp \<Rightarrow>
          if \<not> resp_ok resp then Inl (RuntimeError (resp_status_code resp) (resp_text resp))
          else Inr ())"

text \<open>
  \<open>api_secret\<close> is \<^verbatim>\<open>API_SECRET\<close>, read from the environment when the service starts.
  Around \<^verbatim>\<open>send_telegram_message\<close> the handler has \<^verbatim>\<open>except RuntimeError\<close> and nothing
  else.
\<close>

definition notify ::
  "string \<Rightarrow> table \<Rightarrow> telegram \<Rightarrow> NotifyRequest \<Rightarrow> http_response \<times> call list" where
  "notify api_secret t post payload =
     (if payload_secret payload \<noteq> api_secret then (HTTPException 403 InvalidSecret, [])
      else (case get_chat_id t (payload_nickname payload) of
              Inl KeyError \<Rightarrow>
                (HTTPException 404 NicknameNotFound, [GetChatId (payload_nickname payload)])
            | Inr c \<Rightarrow>
                (case send_telegram_message post c (payload_text payload) of
                   Inl (RuntimeError st body) \<Rightarrow>
                     (HTTPException 502 (TelegramError st body),
                      [GetChatId (payload_nickname payload),
                       SendTelegramMessage c (payload_text payload)])
                 | Inl RequestException \<Rightarrow>
                     (Uncaught RequestException,
                      [GetChatId (payload_nickname payload),
                       SendTelegramMessage c (payload_text payload)])
                 | Inr _ \<Rightarrow>
                     (Success [(''status'', ''ok'')],
                      [GetChatId (payload_nickname payload),
                       SendTelegramMessage c (payload_text payload)]))))"

section \<open>Reading the table\<close>

lemma fetchone_Nil: "fetchone xs = None \<longleftrightarrow> xs = []"
  by (cases xs) (simp_all add: fetchone_def)

lemma fetchone_Some_mem: "fetchone xs = Some r \<Longrightarrow> r \<in> set xs"
  by (cases xs) (simp_all add: fetchone_def)

lemma fetchone_None_iff: "fetchone (filter P t) = None \<longleftrightarrow> (\<forall>x\<in>set t. \<not> P x)"
  by (simp add: fetchone_Nil filter_empty_conv)

lemma fetchone_Some_in: "fetchone (filter P t) = Some r \<Longrightarrow> r \<in> set t \<and> P r"
  using fetchone_Some_mem [of "filter P t" r] by simp

lemma distinct_map_filter_key:
  "distinct (map f t) \<Longrightarrow> r \<in> set t \<Longrightarrow> filter (\<lambda>x. f x = f r) t = [r]"
proof (induction t)
  case Nil
  then show ?case by simp
next
  case (Cons a t)
  show ?case
  proof (cases "a = r")
    case True
    with Cons.prems have "f r \<notin> f ` set t" by simp
    then have "\<forall>x\<in>set t. f x \<noteq> f r" by (metis image_eqI)
    then have "filter (\<lambda>x. f x = f r) t = []" by (simp add: filter_empty_conv)
    with True show ?thesis by simp
  next
    case False
    with Cons.prems have "r \<in> set t" "f a \<noteq> f r" by auto
    with Cons show ?thesis by simp
  qed
qed

lemma select_by_nickname_unique:
  "schema_ok t \<Longrightarrow> r \<in> set t \<Longrightarrow> select_by_nickname t (nickname r) = [r]"
  unfolding schema_ok_def select_by_nickname_def by (simp add: distinct_map_filter_key)

lemma select_by_chat_unique:
  "schema_ok t \<Longrightarrow> r \<in> set t \<Longrightarrow> select_by_chat t (chat_id r) = [r]"
  unfolding schema_ok_def select_by_chat_def by (simp add: distinct_map_filter_key)

lemma select_by_nickname_empty:
  "n \<notin> set (map nickname t) \<Longrightarrow> select_by_nickname t n = []"
  unfolding select_by_nickname_def by (auto simp: filter_empty_conv)

lemma select_by_chat_empty:
  "c \<notin> set (map chat_id t) \<Longrightarrow> select_by_chat t c = []"
  unfolding select_by_chat_def by (auto simp: filter_empty_conv)



lemma save_recipient_cases:
  "save_recipient t n c u = (t', res) \<Longrightarrow>
     (res = Inr () \<and> t' = update_username t n u \<and> (\<exists>r\<in>set t. nickname r = n \<and> chat_id r = c)) \<or>
     (\<exists>m. res = Inl (BotUserError m) \<and> t' = t) \<or>
     (res = Inr () \<and> t' = t @ [\<lparr>nickname = n, chat_id = c, username = u, role = ''user''\<rparr>]
        \<and> n \<notin> set (map nickname t) \<and> c \<notin> set (map chat_id t))"
  unfolding save_recipient_def Let_def select_by_chat_def select_by_nickname_def sql_insert_def
  by (auto split: if_splits option.splits simp: fetchone_None_iff dest!: fetchone_Some_in)

lemma map_nickname_update_username [simp]: "map nickname (update_username t n u) = map nickname t"
  by (induction t) (simp_all add: update_username_def)

lemma map_chat_update_username [simp]: "map chat_id (update_username t n u) = map chat_id t"
  by (induction t) (simp_all add: update_username_def)

lemma map_role_update_username [simp]: "map role (update_username t n u) = map role t"
  by (induction t) (simp_all add: update_username_def)

lemma map_nickname_update_role [simp]: "map nickname (update_role t n ro) = map nickname t"
  by (induction t) (simp_all add: update_role_def)

lemma map_chat_update_role [simp]: "map chat_id (update_role t n ro) = map chat_id t"
  by (induction t) (simp_all add: update_role_def)

lemma schema_ok_filter: "schema_ok t \<Longrightarrow> schema_ok (filter P t)"
  by (simp add: schema_ok_def distinct_map_filter)

lemma roles_ok_map_role: "roles_ok t = list_all (\<lambda>x. x = ''user'' \<or> x = ''admin'') (map role t)"
  by (simp add: roles_ok_def list_all_iff)

lemma save_recipient_schema_ok:
  assumes "schema_ok t"
  shows "schema_ok (fst (save_recipient t n c u))"
proof -
  obtain t' res where eq: "save_recipient t n c u = (t', res)" by (cases "save_recipient t n c u")
  from save_recipient_cases [OF eq] assms have "schema_ok t'"
    by (auto simp: schema_ok_def)
  with eq show ?thesis by simp
qed

lemma save_recipient_roles_ok:
  assumes "roles_ok t"
  shows "roles_ok (fst (save_recipient t n c u))"
proof -
  obtain t' res where eq: "save_recipient t n c u = (t', res)" by (cases "save_recipient t n c u")
  from save_recipient_cases [OF eq] assms have "roles_ok t'"
    by (auto simp: roles_ok_map_role)
  with eq show ?thesis by simp
qed

lemma set_role_roles_ok: "roles_ok t \<Longrightarrow> roles_ok (fst (set_role t n ro))"
  by (auto simp: set_role_def roles_ok_def update_role_def list_all_iff)

lemma set_role_schema_ok: "schema_ok t \<Longrightarrow> schema_ok (fst (set_role t n ro))"
  by (simp add: set_role_def schema_ok_def)

lemma apply_op_table_ok: "table_ok t \<Longrightarrow> table_ok (apply_op t x)"
proof (cases x)
  case (Register n c u)
  assume "table_ok t"
  then show ?thesis
    by (simp add: Register table_ok_def save_recipient_schema_ok save_recipient_roles_ok)
next
  case (DeleteByNickname n)
  assume "table_ok t"
  then show ?thesis
    by (simp add: DeleteByNickname table_ok_def delete_by_nickname_def delete_where_nickname_def
        schema_ok_filter roles_ok_def list_all_iff)
next
  case (DeleteByChat c)
  assume "table_ok t"
  then show ?thesis
    by (simp add: DeleteByChat table_ok_def unsubscribe_chat_def delete_where_chat_def
        schema_ok_filter roles_ok_def list_all_iff)
next
  case (SetRole n ro)
  assume "table_ok t"
  then show ?thesis
    by (simp add: SetRole table_ok_def set_role_schema_ok set_role_roles_ok)
qed

lemma tables_after_table_ok: "table_ok t \<Longrightarrow> t' \<in> set (tables_after t ops) \<Longrightarrow> table_ok t'"
proof (induction ops arbitrary: t)
  case Nil
  then show ?case by simp
next
  case (Cons x xs)
  from Cons.prems(1) have ok: "table_ok (apply_op t x)" by (rule apply_op_table_ok)
  from Cons.prems(2) consider "t' = apply_op t x" | "t' \<in> set (tables_after (apply_op t x) xs)"
    by auto
  then show ?case
  proof cases
    case 1
    with ok show ?thesis by simp
  next
    case 2
    with ok Cons.IH show ?thesis by blast
  qed
qed

lemma distinct_map_count: "distinct (map f t) \<Longrightarrow> length (filter (\<lambda>r. f r = k) t) \<le> Suc 0"
proof (cases "k \<in> f ` set t")
  case True
  assume d: "distinct (map f t)"
  from True obtain r where "r \<in> set t" "f r = k" by auto
  with distinct_map_filter_key [OF d, of r] show ?thesis by auto
next
  case False
  then have "filter (\<lambda>r. f r = k) t = []" by (auto simp: filter_empty_conv)
  then show ?thesis by simp
qed

lemma update_username_row:
  "schema_ok t \<Longrightarrow> r \<in> set t \<Longrightarrow>
     update_username t (nickname r) u = map (\<lambda>x. if x = r then x\<lparr>username := u\<rparr> else x) t"
proof -
  assume ok: "schema_ok t" and r: "r \<in> set t"
  have "\<forall>x\<in>set t. (nickname x = nickname r) = (x = r)"
  proof
    fix x assume x: "x \<in> set t"
    from ok have "inj_on nickname (set t)" by (simp add: schema_ok_def distinct_map)
    with x r show "(nickname x = nickname r) = (x = r)" by (auto dest: inj_onD)
  qed
  then show ?thesis by (simp add: update_username_def)
qed

text \<open>Re-registering the pair a record already has.\<close>

lemma save_recipient_same_pair:
  assumes "schema_ok t" "r \<in> set t" "chat_id r = c"
  shows "save_recipient t (nickname r) c u = (update_username t (nickname r) u, Inr ())"
  using assms select_by_nickname_unique [of t r] select_by_chat_unique [of t r]
  by (auto simp: save_recipient_def fetchone_def)

text \<open>The chat owns another nickname: refused, whoever owns the requested one.\<close>

lemma save_recipient_chat_bound:
  assumes "schema_ok t" "r \<in> set t" "chat_id r = c" "nickname r \<noteq> n"
  shows "save_recipient t n c u = (t, Inl (BotUserError (ChatHasNickname (nickname r))))"
  using assms select_by_chat_unique [of t r]
  by (auto simp: save_recipient_def fetchone_def Let_def split: option.splits)

text \<open>The nickname is owned by another chat, and the asking chat owns none.\<close>

lemma save_recipient_nickname_taken:
  assumes "schema_ok t" "r \<in> set t" "nickname r = n" "chat_id r \<noteq> c" "c \<notin> set (map chat_id t)"
  shows "save_recipient t n c u = (t, Inl (BotUserError (NicknameInUse n)))"
  using assms select_by_nickname_unique [of t r] select_by_chat_empty [of c t]
  by (auto simp: save_recipient_def fetchone_def Let_def)

lemma update_username_mem:
  "r \<in> set t \<Longrightarrow> nickname r = n \<Longrightarrow> r\<lparr>username := u\<rparr> \<in> set (update_username t n u)"
proof -
  assume r: "r \<in> set t" and n: "nickname r = n"
  from r have "(\<lambda>x. if nickname x = n then x\<lparr>username := u\<rparr> else x) r
      \<in> (\<lambda>x. if nickname x = n then x\<lparr>username := u\<rparr> else x) ` set t"
    by (rule imageI)
  with n show ?thesis by (simp add: update_username_def)
qed

text \<open>What a successful registration leaves behind.\<close>

lemma save_recipient_success:
  assumes "schema_ok t" "save_recipient t n c u = (t1, Inr ())"
  shows "schema_ok t1 \<and> (\<exists>r\<in>set t1. nickname r = n \<and> chat_id r = c \<and> username r = u)"
proof -
  from assms(1) save_recipient_schema_ok [of t n c u] assms(2) have ok: "schema_ok t1" by simp
  from save_recipient_cases [OF assms(2)]
  consider r where "t1 = update_username t n u" "r \<in> set t" "nickname r = n" "chat_id r = c"
    | "t1 = t @ [\<lparr>nickname = n, chat_id = c, username = u, role = ''user''\<rparr>]"
    by auto
  then have "\<exists>r\<in>set t1. nickname r = n \<and> chat_id r = c \<and> username r = u"
  proof cases
    case 1
    from update_username_mem [OF 1(2,3), of u] 1(1) have "r\<lparr>username := u\<rparr> \<in> set t1" by simp
    moreover have "nickname (r\<lparr>username := u\<rparr>) = n \<and> chat_id (r\<lparr>username := u\<rparr>) = c
        \<and> username (r\<lparr>username := u\<rparr>) = u"
      using 1 by simp
    ultimately show ?thesis by blast
  next
    case 2
    then show ?thesis by simp
  qed
  with ok show ?thesis by simp
qed

lemma get_recipient_by_nickname_unique:
  "schema_ok t \<Longrightarrow> r \<in> set t \<Longrightarrow> get_recipient_by_nickname t (nickname r) = Some r"
  by (simp add: get_recipient_by_nickname_def select_by_nickname_unique fetchone_def)

lemma fetchone_simps [simp]: "fetchone [] = None" "fetchone (x # xs) = Some x"
  by (simp_all add: fetchone_def)

lemmas registry_eval =
  save_recipient_def select_by_chat_def select_by_nickname_def sql_insert_def
  update_username_def update_role_def schema_ok_def get_recipient_by_nickname_def

lemma save_recipient_nicknames:
  "set (map nickname (fst (save_recipient t n c u))) \<subseteq> insert n (set (map nickname t))"
proof -
  obtain t' res where eq: "save_recipient t n c u = (t', res)" by (cases "save_recipient t n c u")
  from save_recipient_cases [OF eq]
  consider "t' = update_username t n u" | "t' = t"
    | "t' = t @ [\<lparr>nickname = n, chat_id = c, username = u, role = ''user''\<rparr>]"
    by blast
  then have "set (map nickname t') \<subseteq> insert n (set (map nickname t))"
  proof cases
    case 1
    then show ?thesis by (simp add: subset_insertI)
  next
    case 2
    then show ?thesis by (simp add: subset_insertI)
  next
    case 3
    then show ?thesis by simp
  qed
  with eq show ?thesis by simp
qed

lemma get_chat_id_found:
  "schema_ok t \<Longrightarrow> r \<in> set t \<Longrightarrow> get_chat_id t (nickname r) = Inr (chat_id r)"
  by (simp add: get_chat_id_def select_by_nickname_unique)

lemma get_chat_id_missing:
  "n \<notin> set (map nickname t) \<Longrightarrow> get_chat_id t n = Inl KeyError"
  by (simp add: get_chat_id_def select_by_nickname_empty)

subsection \<open>The handlers of the role conversation\<close>

lemma split_colon_role: "split_colon (''role:'' @ rest) = [''role'', rest]"
  by (simp add: split_colon_def)

lemma startswith_role: "startswith x ''role:'' \<Longrightarrow> x = ''role:'' @ drop 5 x"
proof -
  assume "startswith x ''role:''"
  then have "take (length ''role:'') x = ''role:''" unfolding startswith_def .
  moreover have "length ''role:'' = (5::nat)" by simp
  ultimately have "take 5 x = ''role:''" by (simp only:)
  with append_take_drop_id [of 5 x] show ?thesis by simp
qed

text \<open>The handler of the role buttons, by cases on the callback data.\<close>

lemma setrole_choose_role_cases:
  "setrole_choose_role ud d =
     (case d of
        None \<Rightarrow> (ud, [], Inl (BotUserError BadRoleChoice))
      | Some x \<Rightarrow>
          if \<not> startswith x ''role:'' then (ud, [], Inl (BotUserError BadRoleChoice))
          else if drop 5 x = ''admin'' \<or> drop 5 x = ''user''
          then (ud(''target_role'' \<mapsto> drop 5 x), [RoleChosen (drop 5 x)], Inr SETROLE_WAIT_NICKNAME)
          else (ud, [], Inl (BotUserError RoleMustBeAdminOrUser)))"
proof (cases d)
  case None
  then show ?thesis by (simp add: setrole_choose_role_def startswith_def)
next
  case (Some x)
  show ?thesis
  proof (cases "startswith x ''role:''")
    case False
    with Some show ?thesis by (simp add: setrole_choose_role_def)
  next
    case True
    from startswith_role [OF True] split_colon_role [of "drop 5 x"]
    have "split_colon x = [''role'', drop 5 x]" by simp
    with Some True show ?thesis by (simp add: setrole_choose_role_def)
  qed
qed

lemma role_token: "startswith x ''role:'' \<Longrightarrow> drop 5 x = ro \<Longrightarrow> x = ''role:'' @ ro"
  using startswith_role by blast

lemma setrole_choose_role_accepts:
  "snd (snd (setrole_choose_role ud d)) = Inr SETROLE_WAIT_NICKNAME \<longleftrightarrow>
     d = Some ''role:admin'' \<or> d = Some ''role:user''"
proof
  assume a: "snd (snd (setrole_choose_role ud d)) = Inr SETROLE_WAIT_NICKNAME"
  then obtain x where x: "d = Some x" "startswith x ''role:''"
      "drop 5 x = ''admin'' \<or> drop 5 x = ''user''"
    by (auto simp: setrole_choose_role_cases split: option.splits if_splits)
  from role_token [OF x(2)] x(3) have "x = ''role:admin'' \<or> x = ''role:user''" by auto
  with x(1) show "d = Some ''role:admin'' \<or> d = Some ''role:user''" by simp
next
  assume "d = Some ''role:admin'' \<or> d = Some ''role:user''"
  then show "snd (snd (setrole_choose_role ud d)) = Inr SETROLE_WAIT_NICKNAME"
    by (auto simp: setrole_choose_role_cases startswith_def)
qed

lemma setrole_choose_role_rejects:
  assumes "d \<noteq> Some ''role:admin''" "d \<noteq> Some ''role:user''"
  shows "setrole_choose_role ud d = (ud, [], Inl (BotUserError BadRoleChoice)) \<or>
         setrole_choose_role ud d = (ud, [], Inl (BotUserError RoleMustBeAdminOrUser))"
proof (cases d)
  case None
  then show ?thesis by (simp add: setrole_choose_role_cases)
next
  case (Some x)
  show ?thesis
  proof (cases "startswith x ''role:''")
    case False
    with Some show ?thesis by (simp add: setrole_choose_role_cases)
  next
    case True
    from role_token [OF True] assms Some
    have "drop 5 x \<noteq> ''admin''" "drop 5 x \<noteq> ''user''" by auto
    with Some True show ?thesis by (simp add: setrole_choose_role_cases)
  qed
qed

lemmas conversation_eval =
  setrole_conv_def setrole_receive_nickname_def setrole_start_def cancel_all_def
  update_state_def role_pattern_def strip_def isspace_def is_admin_chat_def
  get_recipients_by_chat_def set_role_def
  SETROLE_CHOOSE_ROLE_def SETROLE_WAIT_NICKNAME_def END_def

lemma rowcount_by_nickname:
  assumes "schema_ok t"
  shows "length (select_by_nickname t n) = (if n \<in> set (map nickname t) then 1 else 0)"
proof (cases "n \<in> set (map nickname t)")
  case True
  then obtain r where "r \<in> set t" "nickname r = n" by auto
  with select_by_nickname_unique [OF assms, of r] True show ?thesis by simp
next
  case False
  with select_by_nickname_empty [of n t] show ?thesis by simp
qed

text \<open>The three branches of the last step of the role conversation.\<close>

lemma setrole_receive_nickname_commit:
  assumes "strip txt = n" "n \<noteq> []" "ud ''target_role'' = Some ro"
    and "ro = ''admin'' \<or> ro = ''user''" and "schema_ok t"
  shows "(n \<notin> set (map nickname t) \<longrightarrow>
            setrole_receive_nickname t ud txt =
              (t, ud(''target_role'' := None), [], Inl (BotUserError (UserNotFound n)))) \<and>
         (\<forall>r\<in>set t. nickname r = n \<longrightarrow>
            (role r = ro \<longrightarrow>
               setrole_receive_nickname t ud txt =
                 (t, ud(''target_role'' := None), [RoleAlready n ro], Inr END)) \<and>
            (role r \<noteq> ro \<longrightarrow>
               setrole_receive_nickname t ud txt =
                 (update_role t n ro, ud(''target_role'' := None),
                  [RoleChanged n (role r) ro], Inr END)))"
proof (intro conjI ballI impI)
  assume "n \<notin> set (map nickname t)"
  with select_by_nickname_empty [of n t]
  have "get_recipient_by_nickname t n = None" by (simp add: get_recipient_by_nickname_def)
  with assms show "setrole_receive_nickname t ud txt =
              (t, ud(''target_role'' := None), [], Inl (BotUserError (UserNotFound n)))"
    by (auto simp: setrole_receive_nickname_def Let_def)
next
  fix r assume r: "r \<in> set t" "nickname r = n" "role r = ro"
  from get_recipient_by_nickname_unique [OF assms(5) r(1)] r(2)
  have "get_recipient_by_nickname t n = Some r" by simp
  with assms r show "setrole_receive_nickname t ud txt =
                 (t, ud(''target_role'' := None), [RoleAlready n ro], Inr END)"
    by (auto simp: setrole_receive_nickname_def Let_def)
next
  fix r assume r: "r \<in> set t" "nickname r = n" "role r \<noteq> ro"
  from get_recipient_by_nickname_unique [OF assms(5) r(1)] r(2)
  have g: "get_recipient_by_nickname t n = Some r" by simp
  from r have "n \<in> set (map nickname t)" by auto
  with rowcount_by_nickname [OF assms(5), of n] have "length (select_by_nickname t n) = 1" by simp
  with assms(4) have "set_role t n ro = (update_role t n ro, Inr 1)"
    by (auto simp: set_role_def)
  with assms g r show "setrole_receive_nickname t ud txt =
                 (update_role t n ro, ud(''target_role'' := None),
                  [RoleChanged n (role r) ro], Inr END)"
    by (auto simp: setrole_receive_nickname_def Let_def)
qed

section \<open>The invariant of the registry\<close>

text \<open>
  C1. Start from the empty table and run any sequence of the four writing operations
  (\<open>save_recipient\<close>, \<open>delete_by_nickname\<close>, \<open>unsubscribe_chat\<close>, \<open>set_role\<close>).
  In the table left after each operation every nickname is in at most one record,
  every chat id is in at most one record, and the role of every record is
  \<^verbatim>\<open>'user'\<close> or \<^verbatim>\<open>'admin'\<close>.
\<close>

theorem registry_invariant:
  "t \<in> set (tables_after [] ops) \<Longrightarrow>
     (\<forall>n. length (select_by_nickname t n) \<le> 1) \<and>
     (\<forall>c. length (select_by_chat t c) \<le> 1) \<and>
     (\<forall>r\<in>set t. role r = ''user'' \<or> role r = ''admin'')"
proof -
  assume "t \<in> set (tables_after [] ops)"
  moreover have "table_ok []" by (simp add: table_ok_def schema_ok_def roles_ok_def)
  ultimately have "table_ok t" by (rule tables_after_table_ok [rotated])
  then show ?thesis
    by (simp add: table_ok_def schema_ok_def roles_ok_def list_all_iff
        select_by_nickname_def select_by_chat_def distinct_map_count)
qed

theorem registry_invariant_witness:
  "[row_to_recipient (''alice'', 100, None, ''admin'')]
     \<in> set (tables_after []
         [Register ''alice'' 100 None, Register ''bob'' 100 None, SetRole ''alice'' ''admin'']) \<and>
   length (select_by_nickname [row_to_recipient (''alice'', 100, None, ''admin'')] ''alice'') \<le> 1 \<and>
   length (select_by_chat [row_to_recipient (''alice'', 100, None, ''admin'')] 100) \<le> 1 \<and>
   list_all (\<lambda>r. role r = ''user'' \<or> role r = ''admin'')
     [row_to_recipient (''alice'', 100, None, ''admin'')]"
proof -
  have h: "[row_to_recipient (''alice'', 100, None, ''admin'')]
     \<in> set (tables_after []
         [Register ''alice'' 100 None, Register ''bob'' 100 None, SetRole ''alice'' ''admin''])"
    by (simp add: save_recipient_def set_role_def select_by_chat_def select_by_nickname_def
        fetchone_def sql_insert_def update_role_def)
  from registry_invariant [OF h] h show ?thesis by (simp add: list_all_iff)
qed

section \<open>Registering against an existing binding\<close>

text \<open>
  C3. Let \<open>save_recipient t n1 c u1\<close> succeed on a table that satisfies the schema.
  For every other nickname \<open>n2\<close>, \<open>save_recipient n2 c u2\<close> on the resulting table
  raises the \<^verbatim>\<open>BotUserError\<close> whose message names the nickname \<open>n1\<close> the chat
  has, and returns the table as it was: nothing is inserted and \<open>n1\<close> is still bound
  to \<open>c\<close>. Nothing is assumed of the owner of \<open>n2\<close>, so this error is also the one
  raised when \<open>n2\<close> belongs to another chat: the chat's own binding is checked first.
\<close>

theorem registering_a_bound_chat:
  assumes "schema_ok t" and "n1 \<noteq> n2" and "save_recipient t n1 c u1 = (t1, Inr ())"
  shows "save_recipient t1 n2 c u2 = (t1, Inl (BotUserError (ChatHasNickname n1))) \<and>
         (\<exists>r. get_recipient_by_nickname t1 n1 = Some r \<and> chat_id r = c \<and> username r = u1)"
proof -
  from save_recipient_success [OF assms(1,3)] obtain r where
    ok: "schema_ok t1" and r: "r \<in> set t1" "nickname r = n1" "chat_id r = c" "username r = u1"
    by blast
  from assms(2) r have "nickname r \<noteq> n2" by simp
  from save_recipient_chat_bound [OF ok r(1) r(3) this, of u2] r(2)
  have "save_recipient t1 n2 c u2 = (t1, Inl (BotUserError (ChatHasNickname n1)))" by simp
  moreover from get_recipient_by_nickname_unique [OF ok r(1)] r
  have "\<exists>r. get_recipient_by_nickname t1 n1 = Some r \<and> chat_id r = c \<and> username r = u1" by auto
  ultimately show ?thesis by simp
qed

theorem registering_a_bound_chat_witness:
  "schema_ok [row_to_recipient (''bob'', 2, None, ''user'')] \<and> ''alice'' \<noteq> ''bob'' \<and>
   save_recipient [row_to_recipient (''bob'', 2, None, ''user'')] ''alice'' 1 None =
     ([row_to_recipient (''bob'', 2, None, ''user''), row_to_recipient (''alice'', 1, None, ''user'')],
      Inr ()) \<and>
   save_recipient
     [row_to_recipient (''bob'', 2, None, ''user''), row_to_recipient (''alice'', 1, None, ''user'')]
     ''bob'' 1 (Some ''b'') =
     ([row_to_recipient (''bob'', 2, None, ''user''), row_to_recipient (''alice'', 1, None, ''user'')],
      Inl (BotUserError (ChatHasNickname ''alice'')))"
proof -
  have a: "schema_ok [row_to_recipient (''bob'', 2, None, ''user'')]"
    by (simp add: schema_ok_def)
  have b: "''alice'' \<noteq> ''bob''" by simp
  have c: "save_recipient [row_to_recipient (''bob'', 2, None, ''user'')] ''alice'' 1 None =
     ([row_to_recipient (''bob'', 2, None, ''user''), row_to_recipient (''alice'', 1, None, ''user'')],
      Inr ())"
    by (simp add: registry_eval)
  from registering_a_bound_chat [OF a b c, of "Some ''b''"] a b c show ?thesis by simp
qed

text \<open>
  C2, as amended. Let \<open>save_recipient t n c1 u1\<close> succeed on a table that satisfies the
  schema, and let \<open>c2 \<noteq> c1\<close>. Then \<open>save_recipient n c2 u2\<close> on the resulting table
  raises and returns the table as it was, so that \<open>n\<close> is still bound to \<open>c1\<close> with
  the username \<open>u1\<close>. The error says that the nickname is taken when \<open>c2\<close> owns no
  nickname, and names the nickname of \<open>c2\<close> when it owns one.
\<close>

theorem registering_a_taken_nickname:
  assumes "schema_ok t" and "c1 \<noteq> c2" and "save_recipient t n c1 u1 = (t1, Inr ())"
  shows "(c2 \<notin> set (map chat_id t1) \<longrightarrow>
            save_recipient t1 n c2 u2 = (t1, Inl (BotUserError (NicknameInUse n)))) \<and>
         (\<forall>r\<in>set t1. chat_id r = c2 \<longrightarrow>
            save_recipient t1 n c2 u2 = (t1, Inl (BotUserError (ChatHasNickname (nickname r))))) \<and>
         (\<exists>r. get_recipient_by_nickname t1 n = Some r \<and> chat_id r = c1 \<and> username r = u1)"
proof -
  from save_recipient_success [OF assms(1,3)] obtain r where
    ok: "schema_ok t1" and r: "r \<in> set t1" "nickname r = n" "chat_id r = c1" "username r = u1"
    by blast
  from assms(2) r have ne: "chat_id r \<noteq> c2" by simp
  have a: "c2 \<notin> set (map chat_id t1) \<longrightarrow>
            save_recipient t1 n c2 u2 = (t1, Inl (BotUserError (NicknameInUse n)))"
    using save_recipient_nickname_taken [OF ok r(1) r(2) ne] by simp
  have b: "\<forall>r'\<in>set t1. chat_id r' = c2 \<longrightarrow>
            save_recipient t1 n c2 u2 = (t1, Inl (BotUserError (ChatHasNickname (nickname r'))))"
  proof (intro ballI impI)
    fix r' assume r': "r' \<in> set t1" "chat_id r' = c2"
    have "nickname r' \<noteq> n"
    proof
      assume "nickname r' = n"
      with r(2) have "nickname r' = nickname r" by simp
      moreover from ok have "inj_on nickname (set t1)" by (simp add: schema_ok_def distinct_map)
      ultimately have "r' = r" using r' r(1) by (auto dest: inj_onD)
      with r' ne show False by simp
    qed
    from save_recipient_chat_bound [OF ok r' this]
    show "save_recipient t1 n c2 u2 = (t1, Inl (BotUserError (ChatHasNickname (nickname r'))))" .
  qed
  from get_recipient_by_nickname_unique [OF ok r(1)] r
  have c: "\<exists>r. get_recipient_by_nickname t1 n = Some r \<and> chat_id r = c1 \<and> username r = u1" by auto
  from a b c show ?thesis by blast
qed

theorem registering_a_taken_nickname_witness:
  "schema_ok [] \<and> (1::int) \<noteq> 2 \<and>
   save_recipient [] ''alice'' 1 None = ([row_to_recipient (''alice'', 1, None, ''user'')], Inr ()) \<and>
   2 \<notin> set (map chat_id [row_to_recipient (''alice'', 1, None, ''user'')]) \<and>
   save_recipient [row_to_recipient (''alice'', 1, None, ''user'')] ''alice'' 2 (Some ''eve'') =
     ([row_to_recipient (''alice'', 1, None, ''user'')], Inl (BotUserError (NicknameInUse ''alice'')))"
proof -
  have a: "schema_ok []" by (simp add: schema_ok_def)
  have b: "(1::int) \<noteq> 2" by simp
  have c: "save_recipient [] ''alice'' 1 None =
      ([row_to_recipient (''alice'', 1, None, ''user'')], Inr ())"
    by (simp add: registry_eval)
  have d: "2 \<notin> set (map chat_id [row_to_recipient (''alice'', 1, None, ''user'')])" by simp
  from registering_a_taken_nickname [OF a b c, of "Some ''eve''"] a b c d show ?thesis by simp
qed

text \<open>
  The claim as stated fails where the second chat has a nickname of its own: chat 2 owns
  \<open>bob\<close>, chat 1 registers \<open>alice\<close>, and chat 2 asking for \<open>alice\<close> is told that it
  already has \<open>bob\<close>, not that \<open>alice\<close> is taken.
\<close>

theorem nickname_taken_counterexample:
  "schema_ok [row_to_recipient (''bob'', 2, None, ''user'')] \<and> (1::int) \<noteq> 2 \<and>
   save_recipient [row_to_recipient (''bob'', 2, None, ''user'')] ''alice'' 1 None =
     ([row_to_recipient (''bob'', 2, None, ''user''), row_to_recipient (''alice'', 1, None, ''user'')],
      Inr ()) \<and>
   snd (save_recipient
     [row_to_recipient (''bob'', 2, None, ''user''), row_to_recipient (''alice'', 1, None, ''user'')]
     ''alice'' 2 None) = Inl (BotUserError (ChatHasNickname ''bob'')) \<and>
   snd (save_recipient
     [row_to_recipient (''bob'', 2, None, ''user''), row_to_recipient (''alice'', 1, None, ''user'')]
     ''alice'' 2 None) \<noteq> Inl (BotUserError (NicknameInUse ''alice''))"
  by (simp add: registry_eval)

text \<open>
  C4. On a table that satisfies the schema, when a record \<open>r\<close> has the nickname \<open>n\<close> and
  the chat id \<open>c\<close>, \<open>save_recipient t n c u2\<close> succeeds and the table it leaves is the old
  one with the username of \<open>r\<close> set to \<open>u2\<close>: the role and the chat id of \<open>r\<close> and every
  other record are as before. So registering the same pair a second time succeeds
  again, and the record of \<open>n\<close> then carries the later username.
\<close>

theorem reregistering_updates_username:
  assumes "schema_ok t"
  shows "(\<forall>r\<in>set t. nickname r = n \<and> chat_id r = c \<longrightarrow>
            save_recipient t n c u2 =
              (map (\<lambda>x. if x = r then x\<lparr>username := u2\<rparr> else x) t, Inr ())) \<and>
         (\<forall>t1. save_recipient t n c u1 = (t1, Inr ()) \<longrightarrow>
            (\<exists>t2 r2. save_recipient t1 n c u2 = (t2, Inr ()) \<and>
               get_recipient_by_nickname t2 n = Some r2 \<and> username r2 = u2 \<and> chat_id r2 = c))"
proof -
  have first: "save_recipient t n c u2 =
      (map (\<lambda>x. if x = r then x\<lparr>username := u2\<rparr> else x) t, Inr ())"
    if r: "r \<in> set t" "nickname r = n" "chat_id r = c" for r
  proof -
    from save_recipient_same_pair [OF assms r(1) r(3), of u2] r(2)
    have "save_recipient t n c u2 = (update_username t n u2, Inr ())" by simp
    moreover from update_username_row [OF assms r(1), of u2] r(2)
    have "update_username t n u2 = map (\<lambda>x. if x = r then x\<lparr>username := u2\<rparr> else x) t" by simp
    ultimately show ?thesis by simp
  qed
  have second: "\<exists>t2 r2. save_recipient t1 n c u2 = (t2, Inr ()) \<and>
               get_recipient_by_nickname t2 n = Some r2 \<and> username r2 = u2 \<and> chat_id r2 = c"
    if s: "save_recipient t n c u1 = (t1, Inr ())" for t1
  proof -
    from save_recipient_success [OF assms s] obtain r where
      ok: "schema_ok t1" and r: "r \<in> set t1" "nickname r = n" "chat_id r = c"
      by blast
    from save_recipient_same_pair [OF ok r(1) r(3), of u2] r(2)
    have eq: "save_recipient t1 n c u2 = (update_username t1 n u2, Inr ())" by simp
    from ok save_recipient_schema_ok [of t1 n c u2] eq
    have ok2: "schema_ok (update_username t1 n u2)" by simp
    from update_username_mem [OF r(1) r(2), of u2]
    have mem: "r\<lparr>username := u2\<rparr> \<in> set (update_username t1 n u2)" .
    from get_recipient_by_nickname_unique [OF ok2 mem] r(2)
    have "get_recipient_by_nickname (update_username t1 n u2) n = Some (r\<lparr>username := u2\<rparr>)"
      by simp
    with eq r(3) show ?thesis by simp
  qed
  from first second show ?thesis by blast
qed

theorem reregistering_updates_username_witness:
  "schema_ok [row_to_recipient (''alice'', 1, Some ''a'', ''admin''),
              row_to_recipient (''bob'', 2, None, ''user'')] \<and>
   save_recipient [row_to_recipient (''alice'', 1, Some ''a'', ''admin''),
                   row_to_recipient (''bob'', 2, None, ''user'')] ''alice'' 1 (Some ''b'') =
     ([row_to_recipient (''alice'', 1, Some ''b'', ''admin''),
       row_to_recipient (''bob'', 2, None, ''user'')], Inr ()) \<and>
   save_recipient [row_to_recipient (''alice'', 1, Some ''b'', ''admin''),
                   row_to_recipient (''bob'', 2, None, ''user'')] ''alice'' 1 (Some ''c'') =
     ([row_to_recipient (''alice'', 1, Some ''c'', ''admin''),
       row_to_recipient (''bob'', 2, None, ''user'')], Inr ())"
proof -
  have a: "schema_ok [row_to_recipient (''alice'', 1, Some ''a'', ''admin''),
              row_to_recipient (''bob'', 2, None, ''user'')]"
    by (simp add: schema_ok_def)
  from reregistering_updates_username [OF a, of "''alice''" 1 "Some ''b''" "Some ''a''"]
  show ?thesis by (simp add: registry_eval)
qed

section \<open>Setting a role\<close>

text \<open>
  C7. For a role other than \<^verbatim>\<open>'user'\<close> and \<^verbatim>\<open>'admin'\<close>, \<open>set_role\<close> raises
  \<^verbatim>\<open>ValueError\<close> and the table is the one it was given. For one of the two roles, on a
  table that satisfies the schema, it returns the number of updated rows, which is 1
  when a record has the nickname and 0 when none has.
\<close>

theorem set_role_result:
  "(ro \<noteq> ''user'' \<and> ro \<noteq> ''admin'' \<longrightarrow> set_role t n ro = (t, Inl ValueError)) \<and>
   ((ro = ''user'' \<or> ro = ''admin'') \<and> schema_ok t \<longrightarrow>
      set_role t n ro =
        (update_role t n ro, Inr (if n \<in> set (map nickname t) then 1 else 0)))"
proof -
  have cnt: "length (select_by_nickname t n) = (if n \<in> set (map nickname t) then 1 else 0)"
    if ok: "schema_ok t"
  proof (cases "n \<in> set (map nickname t)")
    case True
    then obtain r where "r \<in> set t" "nickname r = n" by auto
    with select_by_nickname_unique [OF ok, of r] True show ?thesis by simp
  next
    case False
    with select_by_nickname_empty [of n t] show ?thesis by simp
  qed
  show ?thesis
  proof (intro conjI impI)
    assume "ro \<noteq> ''user'' \<and> ro \<noteq> ''admin''"
    then show "set_role t n ro = (t, Inl ValueError)" by (simp add: set_role_def)
  next
    assume a: "(ro = ''user'' \<or> ro = ''admin'') \<and> schema_ok t"
    then have "ro \<in> set [''user'', ''admin'']" by auto
    with a cnt show "set_role t n ro =
        (update_role t n ro, Inr (if n \<in> set (map nickname t) then 1 else 0))"
      by (simp add: set_role_def)
  qed
qed

theorem set_role_result_witness:
  "set_role [row_to_recipient (''alice'', 1, None, ''user'')] ''alice'' ''root'' =
     ([row_to_recipient (''alice'', 1, None, ''user'')], Inl ValueError) \<and>
   schema_ok [row_to_recipient (''alice'', 1, None, ''user'')] \<and>
   set_role [row_to_recipient (''alice'', 1, None, ''user'')] ''alice'' ''admin'' =
     ([row_to_recipient (''alice'', 1, None, ''admin'')], Inr 1) \<and>
   set_role [row_to_recipient (''alice'', 1, None, ''user'')] ''bob'' ''admin'' =
     ([row_to_recipient (''alice'', 1, None, ''user'')], Inr 0)"
proof -
  have a: "schema_ok [row_to_recipient (''alice'', 1, None, ''user'')]"
    by (simp add: schema_ok_def)
  from set_role_result [of "''root''" "[row_to_recipient (''alice'', 1, None, ''user'')]" "''alice''"]
    set_role_result [of "''admin''" "[row_to_recipient (''alice'', 1, None, ''user'')]" "''alice''"]
    set_role_result [of "''admin''" "[row_to_recipient (''alice'', 1, None, ''user'')]" "''bob''"]
    a
  show ?thesis by (simp add: update_role_def)
qed

section \<open>The empty nickname\<close>

text \<open>
  \<open>save_recipient\<close> has no check of the nickname: on the empty table it inserts a
  record whose nickname is the empty string.
\<close>

theorem empty_nickname_counterexample:
  "save_recipient [] [] 100 None = ([row_to_recipient ([], 100, None, ''user'')], Inr ())"
  by (simp add: registry_eval)

text \<open>
  C9, as amended. The check is made by the handler \<open>subscribe_receive\<close>: a text that is
  empty once stripped raises \<^verbatim>\<open>BotUserError\<close>, and the table is not touched. No record
  with an empty nickname enters the table through this handler.
\<close>

theorem subscribe_rejects_empty_nickname:
  "(strip txt = [] \<longrightarrow> subscribe_receive t c u txt = (t, [], Inl (BotUserError EmptyNickname))) \<and>
   (\<forall>r\<in>set (fst (subscribe_receive t c u txt)). nickname r = [] \<longrightarrow> [] \<in> set (map nickname t))"
proof -
  have second: "[] \<in> set (map nickname t)"
    if r: "r \<in> set (fst (subscribe_receive t c u txt))" "nickname r = []" for r
  proof (cases "strip txt = []")
    case True
    with r have "r \<in> set t" by (simp add: subscribe_receive_def)
    then have "nickname r \<in> set (map nickname t)" by simp
    with r(2) show ?thesis by simp
  next
    case False
    obtain t' res where eq: "save_recipient t (strip txt) c u = (t', res)"
      by (cases "save_recipient t (strip txt) c u")
    with False have "fst (subscribe_receive t c u txt) = t'"
      by (cases res) (simp_all add: subscribe_receive_def)
    with r have mem: "r \<in> set t'" by simp
    then have "nickname r \<in> set (map nickname t')" by simp
    with r(2) have "[] \<in> set (map nickname t')" by simp
    moreover from save_recipient_nicknames [of t "strip txt" c u] eq
    have "set (map nickname t') \<subseteq> insert (strip txt) (set (map nickname t))" by simp
    ultimately have "[] \<in> insert (strip txt) (set (map nickname t))" by blast
    with False show ?thesis by auto
  qed
  then show ?thesis by (simp add: subscribe_receive_def)
qed

theorem subscribe_rejects_empty_nickname_witness:
  "strip [CHR '' '', CHR 0x09] = [] \<and>
   subscribe_receive [] 100 None [CHR '' '', CHR 0x09] = ([], [], Inl (BotUserError EmptyNickname)) \<and>
   subscribe_receive [] 100 None ''  al '' =
     ([row_to_recipient (''al'', 100, None, ''user'')], [Subscribed ''al''], Inr END)"
proof -
  have a: "strip [CHR '' '', CHR 0x09] = []" by (simp add: strip_def isspace_def)
  have b: "subscribe_receive [] 100 None ''  al '' =
     ([row_to_recipient (''al'', 100, None, ''user'')], [Subscribed ''al''], Inr END)"
    by (simp add: subscribe_receive_def strip_def isspace_def registry_eval Let_def)
  from subscribe_rejects_empty_nickname [of "[CHR '' '', CHR 0x09]" "[]" 100 None] a b
  show ?thesis by simp
qed

section \<open>The responses of \<^verbatim>\<open>POST /notify\<close>\<close>

text \<open>
  What the handler does, case by case. The response is 403 when the secret of the
  request differs from the configured one; otherwise 404 when no record has the
  nickname. Otherwise, for the record \<open>r\<close> of the nickname, the handler has looked the
  nickname up and made one call to Telegram, for \<open>chat_id r\<close>: when Telegram answers,
  the response is 502 for an answer that is not ok and 200 with the body
  \<^verbatim>\<open>{"status": "ok"}\<close> for one that is; when the call raises, the handler raises with it.
\<close>

lemma notify_cases:
  "(payload_secret p \<noteq> api \<longrightarrow> fst (notify api t post p) = HTTPException 403 InvalidSecret) \<and>
   (payload_secret p = api \<and> payload_nickname p \<notin> set (map nickname t) \<longrightarrow>
      fst (notify api t post p) = HTTPException 404 NicknameNotFound) \<and>
   (\<forall>r\<in>set t. payload_secret p = api \<and> schema_ok t \<and> nickname r = payload_nickname p \<longrightarrow>
      (\<forall>resp. post (chat_id r) (payload_text p) = Returns resp \<longrightarrow>
         (\<not> resp_ok resp \<longrightarrow>
            notify api t post p =
              (HTTPException 502 (TelegramError (resp_status_code resp) (resp_text resp)),
               [GetChatId (payload_nickname p),
                SendTelegramMessage (chat_id r) (payload_text p)])) \<and>
         (resp_ok resp \<longrightarrow>
            notify api t post p =
              (Success [(''status'', ''ok'')],
               [GetChatId (payload_nickname p),
                SendTelegramMessage (chat_id r) (payload_text p)]))) \<and>
      (post (chat_id r) (payload_text p) = Raises \<longrightarrow>
         notify api t post p =
           (Uncaught RequestException,
            [GetChatId (payload_nickname p),
             SendTelegramMessage (chat_id r) (payload_text p)])))"
proof (intro conjI ballI impI allI)
  assume "payload_secret p \<noteq> api"
  then show "fst (notify api t post p) = HTTPException 403 InvalidSecret"
    by (simp add: notify_def)
next
  assume "payload_secret p = api \<and> payload_nickname p \<notin> set (map nickname t)"
  with get_chat_id_missing [of "payload_nickname p" t]
  show "fst (notify api t post p) = HTTPException 404 NicknameNotFound"
    by (simp add: notify_def)
next
  fix r resp
  assume r: "r \<in> set t"
    and a: "payload_secret p = api \<and> schema_ok t \<and> nickname r = payload_nickname p"
    and ans: "post (chat_id r) (payload_text p) = Returns resp" and bad: "\<not> resp_ok resp"
  from a r get_chat_id_found [of t r]
  have "get_chat_id t (payload_nickname p) = Inr (chat_id r)" by simp
  with a ans bad show "notify api t post p =
              (HTTPException 502 (TelegramError (resp_status_code resp) (resp_text resp)),
               [GetChatId (payload_nickname p),
                SendTelegramMessage (chat_id r) (payload_text p)])"
    by (simp add: notify_def send_telegram_message_def)
next
  fix r resp
  assume r: "r \<in> set t"
    and a: "payload_secret p = api \<and> schema_ok t \<and> nickname r = payload_nickname p"
    and ans: "post (chat_id r) (payload_text p) = Returns resp" and good: "resp_ok resp"
  from a r get_chat_id_found [of t r]
  have "get_chat_id t (payload_nickname p) = Inr (chat_id r)" by simp
  with a ans good show "notify api t post p =
              (Success [(''status'', ''ok'')],
               [GetChatId (payload_nickname p),
                SendTelegramMessage (chat_id r) (payload_text p)])"
    by (simp add: notify_def send_telegram_message_def)
next
  fix r
  assume r: "r \<in> set t"
    and a: "payload_secret p = api \<and> schema_ok t \<and> nickname r = payload_nickname p"
    and exn: "post (chat_id r) (payload_text p) = Raises"
  from a r get_chat_id_found [of t r]
  have "get_chat_id t (payload_nickname p) = Inr (chat_id r)" by simp
  with a exn show "notify api t post p =
           (Uncaught RequestException,
            [GetChatId (payload_nickname p),
             SendTelegramMessage (chat_id r) (payload_text p)])"
    by (simp add: notify_def send_telegram_message_def)
qed

text \<open>
  C6. The request has the right secret and the nickname \<open>alice\<close>, registered to chat
  100, and the call to Telegram raises: no answer arrives. The delivery has failed, but
  the handler does not answer 502: the exception is no \<^verbatim>\<open>RuntimeError\<close>, the handler does
  not catch it, and the response is not one the handler has chosen. The sibling case,
  where Telegram answers and the answer is not ok, is the one the handler turns into 502;
  the other equations are the responses 403, 404 and 200 of the same service.
\<close>

theorem notify_uncaught_delivery_failure:
  "notify ''s3cret'' [row_to_recipient (''alice'', 100, None, ''user'')] (\<lambda>c txt. Raises)
       (NotifyRequest ''s3cret'' ''alice'' ''hi'') =
     (Uncaught RequestException, [GetChatId ''alice'', SendTelegramMessage 100 ''hi'']) \<and>
   notify ''s3cret'' [row_to_recipient (''alice'', 100, None, ''user'')]
       (\<lambda>c txt. Returns (TgResponse False 400 ''chat not found''))
       (NotifyRequest ''s3cret'' ''alice'' ''hi'') =
     (HTTPException 502 (TelegramError 400 ''chat not found''),
      [GetChatId ''alice'', SendTelegramMessage 100 ''hi'']) \<and>
   notify ''s3cret'' [row_to_recipient (''alice'', 100, None, ''user'')]
       (\<lambda>c txt. Returns (TgResponse True 200 ''{}''))
       (NotifyRequest ''s3cret'' ''alice'' ''hi'') =
     (Success [(''status'', ''ok'')], [GetChatId ''alice'', SendTelegramMessage 100 ''hi'']) \<and>
   notify ''s3cret'' [row_to_recipient (''alice'', 100, None, ''user'')] (\<lambda>c txt. Raises)
       (NotifyRequest ''s3cret'' ''bob'' ''hi'') =
     (HTTPException 404 NicknameNotFound, [GetChatId ''bob'']) \<and>
   notify ''s3cret'' [row_to_recipient (''alice'', 100, None, ''user'')] (\<lambda>c txt. Raises)
       (NotifyRequest ''guess'' ''alice'' ''hi'') =
     (HTTPException 403 InvalidSecret, [])"
  by (simp add: notify_def get_chat_id_def send_telegram_message_def select_by_nickname_def)

text \<open>
  C10. With a wrong secret the handler answers 403 and has made no call: no lookup in
  the registry and no message to Telegram. The response is therefore the same for
  every table and every behaviour of Telegram.
\<close>

theorem wrong_secret_is_rejected_first:
  "payload_secret p \<noteq> api \<Longrightarrow>
     notify api t post p = (HTTPException 403 InvalidSecret, []) \<and>
     notify api t' post' p = notify api t post p"
  by (simp add: notify_def)

theorem wrong_secret_is_rejected_first_witness:
  "payload_secret (NotifyRequest ''guess'' ''alice'' ''hi'') \<noteq> ''s3cret'' \<and>
   notify ''s3cret'' [row_to_recipient (''alice'', 100, None, ''user'')]
     (\<lambda>c txt. Returns (TgResponse True 200 ''ok'')) (NotifyRequest ''guess'' ''alice'' ''hi'') =
     (HTTPException 403 InvalidSecret, []) \<and>
   notify ''s3cret'' [] (\<lambda>c txt. Raises)
     (NotifyRequest ''guess'' ''alice'' ''hi'') =
   notify ''s3cret'' [row_to_recipient (''alice'', 100, None, ''user'')]
     (\<lambda>c txt. Returns (TgResponse True 200 ''ok'')) (NotifyRequest ''guess'' ''alice'' ''hi'')"
proof -
  have a: "payload_secret (NotifyRequest ''guess'' ''alice'' ''hi'') \<noteq> ''s3cret''" by simp
  from wrong_secret_is_rejected_first [OF a,
      of "[row_to_recipient (''alice'', 100, None, ''user'')]"
         "\<lambda>c txt. Returns (TgResponse True 200 ''ok'')" "[]" "\<lambda>c txt. Raises"] a
  show ?thesis by simp
qed

section \<open>The role conversation\<close>

text \<open>
  C8, as amended. The handler \<open>setrole_choose_role\<close> returns the state that awaits the
  nickname for exactly the two tokens \<^verbatim>\<open>role:admin\<close> and \<^verbatim>\<open>role:user\<close>, and then
  stores the chosen role; for every other callback data it raises \<^verbatim>\<open>BotUserError\<close> and
  stores nothing. In the conversation, in the role-choice state, the two tokens move
  the session to the state that awaits the nickname, and callback data that the
  pattern of the handler does not match is not handled: no handler runs, no error is
  raised, and the session stays as it is.
\<close>

theorem role_choice_step:
  "(snd (snd (setrole_choose_role ud d)) = Inr SETROLE_WAIT_NICKNAME \<longleftrightarrow>
      d = Some ''role:admin'' \<or> d = Some ''role:user'') \<and>
   setrole_choose_role ud (Some ''role:admin'') =
     (ud(''target_role'' \<mapsto> ''admin''), [RoleChosen ''admin''], Inr SETROLE_WAIT_NICKNAME) \<and>
   setrole_choose_role ud (Some ''role:user'') =
     (ud(''target_role'' \<mapsto> ''user''), [RoleChosen ''user''], Inr SETROLE_WAIT_NICKNAME) \<and>
   (d \<noteq> Some ''role:admin'' \<and> d \<noteq> Some ''role:user'' \<longrightarrow>
      setrole_choose_role ud d = (ud, [], Inl (BotUserError BadRoleChoice)) \<or>
      setrole_choose_role ud d = (ud, [], Inl (BotUserError RoleMustBeAdminOrUser))) \<and>
   (conv_state s = Some SETROLE_CHOOSE_ROLE \<longrightarrow>
      setrole_conv t c s (CallbackQuery (Some ''role:admin'')) =
        (t, \<lparr>conv_state = Some SETROLE_WAIT_NICKNAME,
             user_data = (user_data s)(''target_role'' \<mapsto> ''admin'')\<rparr>,
         Some ([RoleChosen ''admin''], Inr SETROLE_WAIT_NICKNAME)) \<and>
      setrole_conv t c s (CallbackQuery (Some ''role:user'')) =
        (t, \<lparr>conv_state = Some SETROLE_WAIT_NICKNAME,
             user_data = (user_data s)(''target_role'' \<mapsto> ''user'')\<rparr>,
         Some ([RoleChosen ''user''], Inr SETROLE_WAIT_NICKNAME)) \<and>
      ((\<forall>x. d = Some x \<longrightarrow> \<not> role_pattern x) \<longrightarrow>
         setrole_conv t c s (CallbackQuery d) = (t, s, None)))"
proof -
  have adm: "setrole_choose_role ud' (Some ''role:admin'') =
     (ud'(''target_role'' \<mapsto> ''admin''), [RoleChosen ''admin''], Inr SETROLE_WAIT_NICKNAME)" for ud'
    by (simp add: setrole_choose_role_cases startswith_def)
  have usr: "setrole_choose_role ud' (Some ''role:user'') =
     (ud'(''target_role'' \<mapsto> ''user''), [RoleChosen ''user''], Inr SETROLE_WAIT_NICKNAME)" for ud'
    by (simp add: setrole_choose_role_cases startswith_def)
  have wait: "update_state st (Inr SETROLE_WAIT_NICKNAME) = Some SETROLE_WAIT_NICKNAME" for st
    by (simp add: update_state_def SETROLE_WAIT_NICKNAME_def END_def)
  have conv: "setrole_conv t c s (CallbackQuery (Some ''role:admin'')) =
        (t, \<lparr>conv_state = Some SETROLE_WAIT_NICKNAME,
             user_data = (user_data s)(''target_role'' \<mapsto> ''admin'')\<rparr>,
         Some ([RoleChosen ''admin''], Inr SETROLE_WAIT_NICKNAME)) \<and>
      setrole_conv t c s (CallbackQuery (Some ''role:user'')) =
        (t, \<lparr>conv_state = Some SETROLE_WAIT_NICKNAME,
             user_data = (user_data s)(''target_role'' \<mapsto> ''user'')\<rparr>,
         Some ([RoleChosen ''user''], Inr SETROLE_WAIT_NICKNAME)) \<and>
      ((\<forall>x. d = Some x \<longrightarrow> \<not> role_pattern x) \<longrightarrow>
         setrole_conv t c s (CallbackQuery d) = (t, s, None))"
    if st: "conv_state s = Some SETROLE_CHOOSE_ROLE"
  proof (intro conjI impI)
    show "setrole_conv t c s (CallbackQuery (Some ''role:admin'')) =
        (t, \<lparr>conv_state = Some SETROLE_WAIT_NICKNAME,
             user_data = (user_data s)(''target_role'' \<mapsto> ''admin'')\<rparr>,
         Some ([RoleChosen ''admin''], Inr SETROLE_WAIT_NICKNAME))"
      using st by (simp add: setrole_conv_def role_pattern_def adm wait)
    show "setrole_conv t c s (CallbackQuery (Some ''role:user'')) =
        (t, \<lparr>conv_state = Some SETROLE_WAIT_NICKNAME,
             user_data = (user_data s)(''target_role'' \<mapsto> ''user'')\<rparr>,
         Some ([RoleChosen ''user''], Inr SETROLE_WAIT_NICKNAME))"
      using st by (simp add: setrole_conv_def role_pattern_def usr wait)
    assume "\<forall>x. d = Some x \<longrightarrow> \<not> role_pattern x"
    then show "setrole_conv t c s (CallbackQuery d) = (t, s, None)"
      using st by (cases d) (simp_all add: setrole_conv_def)
  qed
  from setrole_choose_role_accepts [of ud d] adm [of ud] usr [of ud]
    setrole_choose_role_rejects [of d ud] conv
  show ?thesis by blast
qed

theorem role_choice_step_witness:
  "conv_state \<lparr>conv_state = Some SETROLE_CHOOSE_ROLE, user_data = Map.empty\<rparr>
     = Some SETROLE_CHOOSE_ROLE \<and>
   snd (snd (setrole_choose_role Map.empty (Some ''role:owner''))) \<noteq> Inr SETROLE_WAIT_NICKNAME \<and>
   setrole_choose_role Map.empty (Some ''role:owner'') =
     (Map.empty, [], Inl (BotUserError RoleMustBeAdminOrUser)) \<and>
   setrole_conv [] 100 \<lparr>conv_state = Some SETROLE_CHOOSE_ROLE, user_data = Map.empty\<rparr>
       (CallbackQuery (Some ''role:admin'')) =
     ([], \<lparr>conv_state = Some SETROLE_WAIT_NICKNAME,
            user_data = [''target_role'' \<mapsto> ''admin'']\<rparr>,
      Some ([RoleChosen ''admin''], Inr SETROLE_WAIT_NICKNAME)) \<and>
   setrole_conv [] 100 \<lparr>conv_state = Some SETROLE_CHOOSE_ROLE, user_data = Map.empty\<rparr>
       (CallbackQuery (Some ''role:owner'')) =
     ([], \<lparr>conv_state = Some SETROLE_CHOOSE_ROLE, user_data = Map.empty\<rparr>, None)"
proof -
  have a: "conv_state \<lparr>conv_state = Some SETROLE_CHOOSE_ROLE, user_data = Map.empty\<rparr>
     = Some SETROLE_CHOOSE_ROLE" by simp
  have b: "\<not> role_pattern ''role:owner''" by (simp add: role_pattern_def)
  have c: "setrole_choose_role Map.empty (Some ''role:owner'') =
     (Map.empty, [], Inl (BotUserError RoleMustBeAdminOrUser))"
    by (simp add: setrole_choose_role_def startswith_def split_colon_def)
  from role_choice_step [of Map.empty "Some ''role:owner''"
      "\<lparr>conv_state = Some SETROLE_CHOOSE_ROLE, user_data = Map.empty\<rparr>" "[]" 100] a b c
  show ?thesis by simp
qed

text \<open>
  The claim as stated fails for a token such as \<^verbatim>\<open>role:owner\<close>: the conversation does
  not hand it to any handler, so no error is raised, and the session is still in the
  role-choice state.
\<close>

theorem role_choice_counterexample:
  "setrole_conv [] 100 \<lparr>conv_state = Some SETROLE_CHOOSE_ROLE, user_data = Map.empty\<rparr>
       (CallbackQuery (Some ''role:owner'')) =
     ([], \<lparr>conv_state = Some SETROLE_CHOOSE_ROLE, user_data = Map.empty\<rparr>, None)"
  by (simp add: setrole_conv_def role_pattern_def)

text \<open>
  C5. The last step of the role conversation, \<open>setrole_receive_nickname\<close>, in the
  conversation of an administrator, chat 100, who has chosen the role \<^verbatim>\<open>user\<close>. For
  the unknown nickname \<open>bob\<close> the handler drops the chosen role and raises the
  not-found error; it does not return \<^verbatim>\<open>END\<close>, so the conversation stays in the state
  that awaits the nickname. There \<^verbatim>\<open>/setrole\<close> is not handled, and the next nickname,
  even that of an existing record, raises the error of a lost role choice. The last
  equation is the sibling branch, where the role is the one the record has: the handler
  returns \<^verbatim>\<open>END\<close> and the conversation is closed.
\<close>

theorem setrole_unknown_nickname_keeps_conversation:
  "setrole_conv [row_to_recipient (''alice'', 100, None, ''admin'')] 100
       \<lparr>conv_state = Some SETROLE_WAIT_NICKNAME, user_data = [''target_role'' \<mapsto> ''user'']\<rparr>
       (Text ''bob'') =
     ([row_to_recipient (''alice'', 100, None, ''admin'')],
      \<lparr>conv_state = Some SETROLE_WAIT_NICKNAME, user_data = Map.empty\<rparr>,
      Some ([], Inl (BotUserError (UserNotFound ''bob'')))) \<and>
   setrole_conv [row_to_recipient (''alice'', 100, None, ''admin'')] 100
       \<lparr>conv_state = Some SETROLE_WAIT_NICKNAME, user_data = Map.empty\<rparr>
       (Command ''setrole'') =
     ([row_to_recipient (''alice'', 100, None, ''admin'')],
      \<lparr>conv_state = Some SETROLE_WAIT_NICKNAME, user_data = Map.empty\<rparr>, None) \<and>
   setrole_conv [row_to_recipient (''alice'', 100, None, ''admin'')] 100
       \<lparr>conv_state = Some SETROLE_WAIT_NICKNAME, user_data = Map.empty\<rparr>
       (Text ''alice'') =
     ([row_to_recipient (''alice'', 100, None, ''admin'')],
      \<lparr>conv_state = Some SETROLE_WAIT_NICKNAME, user_data = Map.empty\<rparr>,
      Some ([], Inl (BotUserError RoleChoiceLost))) \<and>
   setrole_conv [row_to_recipient (''alice'', 100, None, ''admin'')] 100
       \<lparr>conv_state = Some SETROLE_WAIT_NICKNAME, user_data = [''target_role'' \<mapsto> ''admin'']\<rparr>
       (Text ''alice'') =
     ([row_to_recipient (''alice'', 100, None, ''admin'')],
      \<lparr>conv_state = None, user_data = Map.empty\<rparr>,
      Some ([RoleAlready ''alice'' ''admin''], Inr END))"
  by (simp add: conversation_eval registry_eval Let_def)

end
